theory Spec2Isabelle
  imports Complex_Main "HOL-Library.Word"
begin

section \<open>JavaScript values\<close>

text \<open>
  The values the two servers handle: what \<open>JSON.parse\<close> produces (request bodies, the
  translation provider's answers), what the handlers put into \<open>res.json\<close>, and
  \<open>undefined\<close>.  A string is its sequence of code units: \<open>length\<close> and \<open>substring\<close>
  count list elements.  An object is the list of its properties.
\<close>

datatype jsval =
    JUndefined
  | JNull
  | JBool bool
  | JNum real
  | JStr string
  | JArr "jsval list"
  | JObj "(string \<times> jsval) list"

text \<open>Truthiness, as \<open>!v\<close>, \<open>a || b\<close> and \<open>a && b\<close> test it.\<close>

fun truthy :: "jsval \<Rightarrow> bool" where
  "truthy JUndefined = False"
| "truthy JNull = False"
| "truthy (JBool b) = b"
| "truthy (JNum x) = (x \<noteq> 0)"
| "truthy (JStr s) = (s \<noteq> [])"
| "truthy (JArr xs) = True"
| "truthy (JObj fs) = True"

fun typeof :: "jsval \<Rightarrow> string" where
  "typeof JUndefined = ''undefined''"
| "typeof JNull = ''object''"
| "typeof (JBool b) = ''boolean''"
| "typeof (JNum x) = ''number''"
| "typeof (JStr s) = ''string''"
| "typeof (JArr xs) = ''object''"
| "typeof (JObj fs) = ''object''"

definition js_or :: "jsval \<Rightarrow> jsval \<Rightarrow> jsval" where
  "js_or a b = (if truthy a then a else b)"

definition js_and :: "jsval \<Rightarrow> jsval \<Rightarrow> jsval" where
  "js_and a b = (if truthy a then b else a)"

text \<open>
  Reading a named property, \<open>v.k\<close>.  An object gives the property's value, or
  \<open>undefined\<close> when it has none; a string, number, boolean or array has none of the names
  read in this program (\<open>text\<close>, \<open>fromLang\<close>, \<open>toLang\<close>, \<open>responseData\<close>,
  \<open>translatedText\<close>, \<open>responseStatus\<close>).  On \<open>null\<close> and \<open>undefined\<close> JavaScript
  raises a TypeError.  The handlers that destructure \<open>req.body\<close> test for these two
  themselves and throw; every other plain read in the two servers has a receiver that was
  tested truthy on the same path, so that branch is written as \<open>undefined\<close> here and
  the guarded sites are shown never to reach it (\<open>truthy_not_nullish\<close>,
  \<open>guarded_reads\<close>).
\<close>

fun get_prop :: "jsval \<Rightarrow> string \<Rightarrow> jsval" where
  "get_prop (JObj fs) k = (case map_of fs k of None \<Rightarrow> JUndefined | Some v \<Rightarrow> v)"
| "get_prop v k = JUndefined"

definition nullish :: "jsval \<Rightarrow> bool" where
  "nullish v = (v = JUndefined \<or> v = JNull)"

text \<open>Optional chaining, \<open>v?.k\<close>.\<close>

definition opt_chain :: "jsval \<Rightarrow> string \<Rightarrow> jsval" where
  "opt_chain v k = (if nullish v then JUndefined else get_prop v k)"

text \<open>A destructuring default, \<open>const { k = d } = obj\<close>: it applies to \<open>undefined\<close> only.\<close>

definition default_to :: "jsval \<Rightarrow> jsval \<Rightarrow> jsval" where
  "default_to v d = (if v = JUndefined then d else v)"

text \<open>The characters of a value known to be a string (after \<open>typeof v === 'string'\<close>).\<close>

fun str_value :: "jsval \<Rightarrow> string" where
  "str_value (JStr s) = s"
| "str_value v = []"

text \<open>\<open>s.substring(a, b)\<close>: the arguments are swapped when \<open>a > b\<close> and clamped to the length.\<close>

definition substring :: "string \<Rightarrow> nat \<Rightarrow> nat \<Rightarrow> string" where
  "substring s a b = (let lo = min a b; hi = max a b in take (hi - lo) (drop lo s))"

text \<open>
  \<open>JSON.stringify\<close>, as \<open>res.json\<close> applies it, read back by the client: a property whose
  value is \<open>undefined\<close> is left out of an object, and \<open>undefined\<close> inside an array is
  written \<open>null\<close>.
\<close>

fun stringify :: "jsval \<Rightarrow> jsval" where
  "stringify (JObj fs) =
     JObj (map (\<lambda>kv. (fst kv, stringify (snd kv))) (filter (\<lambda>kv. snd kv \<noteq> JUndefined) fs))"
| "stringify (JArr xs) = JArr (map (\<lambda>v. if v = JUndefined then JNull else stringify v) xs)"
| "stringify v = v"

text \<open>
  String conversion, as a template literal \<open>`${v}`\<close> and \<open>new Error(v)\<close> apply it;
  \<open>None\<close> is the TypeError it throws.  An object is converted by its \<open>toString\<close>
  method: a parsed object inherits the one that gives \<open>[object Object]\<close>, unless it has
  a property of its own called \<open>toString\<close>, which is never a function, and then the
  conversion throws.  An array joins the conversions of its elements, with \<open>null\<close> and
  \<open>undefined\<close> as the empty string.  The decimal rendering of a number is the
  runtime's; it is the parameter \<open>num\<close>.
\<close>

fun join_comma :: "string list \<Rightarrow> string" where
  "join_comma [] = []"
| "join_comma [s] = s"
| "join_comma (s # t # ss) = s @ '','' @ join_comma (t # ss)"

fun ToString :: "(real \<Rightarrow> string) \<Rightarrow> jsval \<Rightarrow> string option" where
  "ToString num JUndefined = Some ''undefined''"
| "ToString num JNull = Some ''null''"
| "ToString num (JBool b) = Some (if b then ''true'' else ''false'')"
| "ToString num (JNum x) = Some (num x)"
| "ToString num (JStr s) = Some s"
| "ToString num (JArr xs) =
     map_option join_comma
       (those (map (\<lambda>v. if v = JUndefined \<or> v = JNull then Some [] else ToString num v) xs))"
| "ToString num (JObj fs) =
     (if ''toString'' \<in> fst ` set fs then None else Some ''[object Object]'')"

definition quoted :: "string \<Rightarrow> string" where
  "quoted s = [CHR 0x27] @ s @ [CHR 0x27]"

section \<open>The environment of a request\<close>

text \<open>
  An \<open>Error\<close> object, as the handlers and Express read it: \<open>err.message\<close>,
  \<open>err.stack\<close>, and \<open>err.status\<close>, which the body parsers set on their errors.
\<close>

record js_error =
  message :: string
  stack :: string
  http_status :: "nat option"

text \<open>What \<open>pdf-parse\<close> resolves to: \<open>data.text\<close> (here \<open>pdf_text\<close>) and \<open>data.numpages\<close>.\<close>

record pdf_data =
  pdf_text :: string
  numpages :: nat

type_synonym buffer = "8 word list"

text \<open>One call of \<open>axios.get(url, { params: { q, langpair, de }, timeout })\<close>.\<close>

record http_call =
  url :: string
  q :: string
  langpair :: string
  de :: "string option"
  timeout_ms :: nat

text \<open>
  Everything outside the two files that a request meets:
  \<^item> the PDF parser (it resolves or rejects);
  \<^item> the translation provider behind \<open>axios.get\<close> (it rejects on a network error, a
    timeout or a non-2xx status, and resolves to \<open>response.data\<close> otherwise);
  \<^item> \<open>process.env.NODE_ENV\<close> and \<open>Date.now()\<close>;
  \<^item> the stacks the runtime puts into a new \<open>Error\<close> and a new \<open>TypeError\<close>, and its
    rendering of numbers;
  \<^item> the parsing done inside the body parsers: the strict \<open>JSON.parse\<close> of a JSON body
    and the parse of a URL-encoded body, each giving a value or an error;
  \<^item> what \<open>req.body\<close> is when no parser has parsed the body: \<open>{}\<close> with Express 4,
    \<open>undefined\<close> with Express 5 (the repository pins neither);
  \<^item> the errors of the file system on a file that exists: \<open>fs_read_error p\<close> is what
    \<open>fs.readFileSync\<close> throws on \<open>p\<close>, if it does, and \<open>fs_unlink_error n p\<close> what the
    request's \<open>n\<close>-th further call of \<open>fs.unlinkSync\<close> throws on \<open>p\<close>, if it does
    (\<open>EPERM\<close>, \<open>EBUSY\<close>, \<open>EACCES\<close>).
\<close>

record world =
  pdf :: "buffer \<Rightarrow> js_error + pdf_data"
  axios_get :: "http_call \<Rightarrow> js_error + jsval"
  NODE_ENV :: "string option"
  Date_now :: real
  error_stack :: "string \<Rightarrow> string"
  type_error_stack :: "string \<Rightarrow> string"
  number_toString :: "real \<Rightarrow> string"
  JSON_parse :: "string \<Rightarrow> js_error + jsval"
  urlencoded_parse :: "string \<Rightarrow> js_error + jsval"
  unparsed_body :: jsval
  fs_read_error :: "string \<Rightarrow> js_error option"
  fs_unlink_error :: "nat \<Rightarrow> string \<Rightarrow> js_error option"

definition new_Error :: "world \<Rightarrow> string \<Rightarrow> js_error" where
  "new_Error w m = \<lparr>message = m, stack = error_stack w m, http_status = None\<rparr>"

definition new_TypeError :: "world \<Rightarrow> string \<Rightarrow> js_error" where
  "new_TypeError w m = \<lparr>message = m, stack = type_error_stack w m, http_status = None\<rparr>"

text \<open>The TypeError of a string conversion that throws.\<close>

definition to_string :: "world \<Rightarrow> jsval \<Rightarrow> js_error + string" where
  "to_string w v =
     (case ToString (number_toString w) v of
        None \<Rightarrow> Inl (new_TypeError w ''Cannot convert object to primitive value'')
      | Some s \<Rightarrow> Inr s)"

text \<open>
  The template literal \<open>`${fromLang}|${toLang}`\<close>: it converts \<open>fromLang\<close>, then
  \<open>toLang\<close>, and throws when a conversion does.
\<close>

definition langpair_template :: "world \<Rightarrow> jsval \<Rightarrow> jsval \<Rightarrow> js_error + string" where
  "langpair_template w fromLang toLang =
     (case to_string w fromLang of
        Inl err \<Rightarrow> Inl err
      | Inr a \<Rightarrow>
          (case to_string w toLang of
             Inl err \<Rightarrow> Inl err
           | Inr b \<Rightarrow> Inr (a @ ''|'' @ b)))"

text \<open>
  What a request ends in.  \<open>Json s v\<close> is \<open>res.status(s).json(v)\<close> (\<open>res.json(v)\<close> has
  status 200), holding the body as the client parses it.  \<open>DefaultErrorPage\<close> is the answer
  of Express's built-in error handler, which takes an error passed to \<open>next\<close> when the
  application registers no error-handling middleware: an HTML page, not JSON, with the
  error's status or 500.  \<open>Rejected\<close> is an async handler whose promise rejects before
  it has sent anything.
\<close>

datatype reply =
    Json nat jsval
  | DefaultErrorPage js_error
  | Rejected js_error

definition res_json :: "nat \<Rightarrow> jsval \<Rightarrow> reply" where
  "res_json s v = Json s (stringify v)"

text \<open>
  The client's view of a reply: its JSON body, if it has one, and a field of it; its
  status (0 stands for no answer of the handler).
\<close>

fun json_body :: "reply \<Rightarrow> jsval option" where
  "json_body (Json s v) = Some v"
| "json_body r = None"

fun status_code :: "reply \<Rightarrow> nat" where
  "status_code (Json s v) = s"
| "status_code (DefaultErrorPage err) = (case http_status err of None \<Rightarrow> 500 | Some s \<Rightarrow> s)"
| "status_code (Rejected err) = 0"

fun has_field :: "reply \<Rightarrow> string \<Rightarrow> bool" where
  "has_field (Json s (JObj fs)) k = (k \<in> fst ` set fs)"
| "has_field r k = False"

fun field :: "reply \<Rightarrow> string \<Rightarrow> jsval" where
  "field (Json s v) k = get_prop v k"
| "field r k = JUndefined"

text \<open>
  A request, by what it carries: nothing, a JSON body (\<open>Content-Type: application/json\<close>,
  the bytes of the body), a URL-encoded body, or a multipart body with or without a part
  in the field \<open>pdf\<close>.
\<close>

record upload =
  originalname :: string
  mimetype :: string
  content :: buffer

datatype payload =
    NoPayload
  | JsonPayload string
  | FormPayload string
  | Multipart "upload option"

record request =
  payload :: payload

definition file_part :: "request \<Rightarrow> upload option" where
  "file_part req = (case payload req of Multipart part \<Rightarrow> part | _ \<Rightarrow> None)"

definition fileSize_limit :: nat where
  "fileSize_limit = 10 * 1024 * 1024"

definition api_url :: string where
  "api_url = ''https://api.mymemory.translated.net/get''"

text \<open>
  The body parsers, \<open>express.json\<close> / \<open>bodyParser.json\<close> and \<open>express.urlencoded\<close> /
  \<open>bodyParser.urlencoded\<close>, with the \<open>limit\<close> they are given: \<open>'10mb'\<close>, or
  \<open>'100kb'\<close> when none is given.  A parser leaves alone a body that an earlier parser
  has parsed (\<open>Some\<close>) and a body of another type; it passes to \<open>next\<close> the error of a
  body longer than the limit (status 413) and the error of the parse (status 400); an
  empty JSON body is \<open>{}\<close>.
\<close>

definition limit_10mb :: nat where
  "limit_10mb = 10 * 1024 * 1024"

definition limit_default :: nat where
  "limit_default = 100 * 1024"

definition too_large :: "world \<Rightarrow> js_error" where
  "too_large w = (new_Error w ''request entity too large'')\<lparr>http_status := Some 413\<rparr>"

definition json_parser ::
  "world \<Rightarrow> nat \<Rightarrow> request \<Rightarrow> jsval option \<Rightarrow> js_error + jsval option" where
  "json_parser w limit req parsed =
     (case parsed of
        Some v \<Rightarrow> Inr (Some v)
      | None \<Rightarrow>
          (case payload req of
             JsonPayload s \<Rightarrow>
               if limit < length s then Inl (too_large w)
               else if s = [] then Inr (Some (JObj []))
               else (case JSON_parse w s of
                       Inl err \<Rightarrow> Inl (err\<lparr>http_status := Some 400\<rparr>)
                     | Inr v \<Rightarrow> Inr (Some v))
           | _ \<Rightarrow> Inr None))"

definition urlencoded_parser ::
  "world \<Rightarrow> nat \<Rightarrow> request \<Rightarrow> jsval option \<Rightarrow> js_error + jsval option" where
  "urlencoded_parser w limit req parsed =
     (case parsed of
        Some v \<Rightarrow> Inr (Some v)
      | None \<Rightarrow>
          (case payload req of
             FormPayload s \<Rightarrow>
               if limit < length s then Inl (too_large w)
               else (case urlencoded_parse w s of
                       Inl err \<Rightarrow> Inl (err\<lparr>http_status := Some 400\<rparr>)
                     | Inr v \<Rightarrow> Inr (Some v))
           | _ \<Rightarrow> Inr None))"

text \<open>\<open>req.body\<close> when the parsers are done.\<close>

definition req_body :: "world \<Rightarrow> jsval option \<Rightarrow> jsval" where
  "req_body w parsed = (case parsed of None \<Rightarrow> unparsed_body w | Some v \<Rightarrow> v)"

text \<open>
  \<open>upload.single('pdf')\<close> of multer, with the \<open>fileFilter\<close> and the \<open>limits.fileSize\<close>
  the server configures: no part leaves \<open>req.file\<close> undefined; an error of the filter, or
  a part longer than the limit, is passed to \<open>next\<close>; otherwise the part becomes
  \<open>req.file\<close>.
\<close>

definition upload_single ::
  "world \<Rightarrow> (upload \<Rightarrow> js_error + bool) \<Rightarrow> request \<Rightarrow> js_error + upload option" where
  "upload_single w fileFilter req =
     (case file_part req of
        None \<Rightarrow> Inr None
      | Some f \<Rightarrow>
          (case fileFilter f of
             Inl err \<Rightarrow> Inl err
           | Inr accept \<Rightarrow>
               if \<not> accept then Inr None
               else if fileSize_limit < length (content f) then Inl (new_Error w ''File too large'')
               else Inr (Some f)))"

section \<open>The memory-backed server\<close>

definition fileFilter_mem :: "world \<Rightarrow> upload \<Rightarrow> js_error + bool" where
  "fileFilter_mem w f =
     (if mimetype f = ''application/pdf'' then Inr True
      else Inl (new_Error w ''Only PDF files are allowed (max 10MB)''))"

text \<open>
  \<open>translateText(text, fromLang, toLang)\<close>: its result, or the error it throws, and the
  calls of \<open>axios.get\<close> it made.  The argument of \<open>axios.get\<close> is built first, so a
  template literal that throws leaves the provider uncalled.
\<close>

definition translateText ::
  "world \<Rightarrow> string \<Rightarrow> jsval \<Rightarrow> jsval \<Rightarrow> (js_error + jsval) \<times> http_call list" where
  "translateText w txt fromLang toLang =
     (case langpair_template w fromLang toLang of
        Inl err \<Rightarrow> (Inl err, [])
      | Inr pair \<Rightarrow>
          (let call = \<lparr>url = api_url,
                       q = substring txt 0 500,
                       langpair = pair,
                       de = Some ''your-email@example.com'',
                       timeout_ms = 5000\<rparr>
           in case axios_get w call of
                Inl err \<Rightarrow> (Inl err, [call])
              | Inr data \<Rightarrow>
                  if \<not> truthy (opt_chain (opt_chain data ''responseData'') ''translatedText'')
                  then (case to_string w (js_or (opt_chain data ''responseStatus'')
                                               (JStr ''Translation service error'')) of
                          Inl err \<Rightarrow> (Inl err, [call])
                        | Inr m \<Rightarrow> (Inl (new_Error w m), [call]))
                  else (Inr (get_prop (get_prop data ''responseData'') ''translatedText''),
                        [call])))"

definition handleError :: "world \<Rightarrow> js_error \<Rightarrow> string \<Rightarrow> reply" where
  "handleError w err context =
     res_json 500 (JObj [
       (''success'', JBool False),
       (''error'', JStr context),
       (''details'', if NODE_ENV w = Some ''development''
                     then JObj [(''message'', JStr (message err)), (''stack'', JStr (stack err))]
                     else JUndefined)])"

definition no_file_reply :: reply where
  "no_file_reply =
     res_json 400 (JObj [(''success'', JBool False), (''error'', JStr ''No PDF file uploaded'')])"

definition invalid_text_reply :: reply where
  "invalid_text_reply =
     res_json 400 (JObj [(''success'', JBool False),
                         (''error'', JStr ''Valid text is required for translation'')])"

text \<open>The \<open>catch\<close> block of \<open>/process-pdf\<close>.\<close>

definition process_pdf_catch :: "world \<Rightarrow> js_error \<Rightarrow> reply" where
  "process_pdf_catch w err =
     res_json 500 (JObj [
       (''success'', JBool False),
       (''error'', JStr ''PDF processing failed''),
       (''details'', if NODE_ENV w = Some ''development'' then JStr (message err)
                     else JUndefined)])"

text \<open>The handler of \<open>POST /process-pdf\<close>, given \<open>req.file\<close> (\<open>content\<close> is its \<open>buffer\<close>).\<close>

definition process_pdf :: "world \<Rightarrow> upload option \<Rightarrow> reply \<times> http_call list" where
  "process_pdf w req_file =
     (case req_file of
        None \<Rightarrow> (no_file_reply, [])
      | Some f \<Rightarrow>
          (case pdf w (content f) of
             Inl err \<Rightarrow> (process_pdf_catch w err, [])
           | Inr data \<Rightarrow>
               (let extractedText = pdf_text data in
                case (if length extractedText > 50
                      then translateText w (substring extractedText 0 500)
                             (JStr ''auto'') (JStr ''en'')
                      else (Inr (JStr []), []))
                of
                  (Inl err, calls) \<Rightarrow> (process_pdf_catch w err, calls)
                | (Inr translation, calls) \<Rightarrow>
                    (res_json 200 (JObj [
                       (''success'', JBool True),
                       (''metadata'', JObj [
                          (''pages'', JNum (real (numpages data))),
                          (''textLength'', JNum (real (length extractedText)))]),
                       (''extractedText'',
                          JStr (substring extractedText 0 1000
                                @ (if length extractedText > 1000 then ''...'' else []))),
                       (''translatedText'', translation),
                       (''downloadLink'', JNull)]), calls))))"

text \<open>The handler of \<open>POST /extract-text\<close>.\<close>

definition extract_text_mem :: "world \<Rightarrow> upload option \<Rightarrow> reply" where
  "extract_text_mem w req_file =
     (case req_file of
        None \<Rightarrow> no_file_reply
      | Some f \<Rightarrow>
          (case pdf w (content f) of
             Inl err \<Rightarrow> handleError w err ''Text extraction failed''
           | Inr data \<Rightarrow>
               res_json 200 (JObj [
                 (''success'', JBool True),
                 (''text'', JStr (pdf_text data)),
                 (''pages'', JNum (real (numpages data))),
                 (''textLength'', JNum (real (length (pdf_text data))))])))"

text \<open>
  The handler of \<open>POST /translate\<close>, given \<open>req.body\<close>.  Destructuring \<open>undefined\<close>
  or \<open>null\<close> throws a TypeError, inside the \<open>try\<close>.
\<close>

definition destructure_error :: "world \<Rightarrow> jsval \<Rightarrow> js_error" where
  "destructure_error w b =
     new_TypeError w (''Cannot destructure property '' @ quoted ''text'' @ '' of ''
                      @ quoted ''req.body'' @ '' as it is ''
                      @ (if b = JNull then ''null'' else ''undefined'') @ ''.'')"

definition translate_mem :: "world \<Rightarrow> jsval \<Rightarrow> reply \<times> http_call list" where
  "translate_mem w b =
     (if nullish b then (handleError w (destructure_error w b) ''Translation failed'', [])
      else
        (let txt = get_prop b ''text'';
             fromLang = default_to (get_prop b ''fromLang'') (JStr ''auto'');
             toLang = default_to (get_prop b ''toLang'') (JStr ''en'')
         in if \<not> truthy txt \<or> typeof txt \<noteq> ''string'' then (invalid_text_reply, [])
            else case translateText w (str_value txt) fromLang toLang of
                   (Inl err, calls) \<Rightarrow> (handleError w err ''Translation failed'', calls)
                 | (Inr result, calls) \<Rightarrow>
                     (res_json 200 (JObj [
                        (''success'', JBool True),
                        (''translatedText'', result),
                        (''characters'', JNum (real (length (str_value txt))))]), calls)))"

text \<open>
  The middleware registered with \<open>app.use\<close> before the routes:
  \<open>express.json({ limit: '10mb' })\<close>, then
  \<open>express.urlencoded({ extended: true, limit: '10mb' })\<close>.
\<close>

definition body_parsers_mem :: "world \<Rightarrow> request \<Rightarrow> js_error + jsval" where
  "body_parsers_mem w req =
     (case json_parser w limit_10mb req None of
        Inl err \<Rightarrow> Inl err
      | Inr parsed \<Rightarrow>
          (case urlencoded_parser w limit_10mb req parsed of
             Inl err \<Rightarrow> Inl err
           | Inr parsed' \<Rightarrow> Inr (req_body w parsed')))"

text \<open>
  The routes as registered: the body parsers, the upload middleware where the route has
  it, then the handler.  This server registers no error-handling middleware, so an error
  that a middleware passes to \<open>next\<close> goes to Express's built-in handler.
\<close>

definition route_process_pdf :: "world \<Rightarrow> request \<Rightarrow> reply \<times> http_call list" where
  "route_process_pdf w req =
     (case body_parsers_mem w req of
        Inl err \<Rightarrow> (DefaultErrorPage err, [])
      | Inr b \<Rightarrow>
          (case upload_single w (fileFilter_mem w) req of
             Inl err \<Rightarrow> (DefaultErrorPage err, [])
           | Inr req_file \<Rightarrow> process_pdf w req_file))"

definition route_extract_text_mem :: "world \<Rightarrow> request \<Rightarrow> reply" where
  "route_extract_text_mem w req =
     (case body_parsers_mem w req of
        Inl err \<Rightarrow> DefaultErrorPage err
      | Inr b \<Rightarrow>
          (case upload_single w (fileFilter_mem w) req of
             Inl err \<Rightarrow> DefaultErrorPage err
           | Inr req_file \<Rightarrow> extract_text_mem w req_file))"

definition route_translate_mem :: "world \<Rightarrow> request \<Rightarrow> reply \<times> http_call list" where
  "route_translate_mem w req =
     (case body_parsers_mem w req of
        Inl err \<Rightarrow> (DefaultErrorPage err, [])
      | Inr b \<Rightarrow> translate_mem w b)"

section \<open>The disk-backed server\<close>

text \<open>
  The files of the upload directory, by path.  \<open>fs.readFileSync\<close> and \<open>fs.unlinkSync\<close>
  throw \<open>ENOENT\<close> when the path names no file, and whatever the file system makes them
  throw on a file that exists; \<open>fs.unlinkSync\<close> removes the file when it does not throw.
  The number given to \<open>unlinkSync\<close> counts the calls of it the request has made before.
\<close>

type_synonym filesystem = "string \<rightharpoonup> buffer"

definition existsSync :: "filesystem \<Rightarrow> string \<Rightarrow> bool" where
  "existsSync fs p = (fs p \<noteq> None)"

definition readFileSync :: "world \<Rightarrow> filesystem \<Rightarrow> string \<Rightarrow> js_error + buffer" where
  "readFileSync w fs p =
     (case fs p of
        None \<Rightarrow> Inl (new_Error w (''ENOENT: no such file or directory, open '' @ quoted p))
      | Some b \<Rightarrow> (case fs_read_error w p of Some err \<Rightarrow> Inl err | None \<Rightarrow> Inr b))"

definition unlinkSync ::
  "world \<Rightarrow> nat \<Rightarrow> filesystem \<Rightarrow> string \<Rightarrow> js_error + filesystem" where
  "unlinkSync w n fs p =
     (case fs p of
        None \<Rightarrow> Inl (new_Error w (''ENOENT: no such file or directory, unlink '' @ quoted p))
      | Some b \<Rightarrow>
          (case fs_unlink_error w n p of Some err \<Rightarrow> Inl err | None \<Rightarrow> Inr (fs(p := None))))"

definition fileFilter_disk :: "world \<Rightarrow> upload \<Rightarrow> js_error + bool" where
  "fileFilter_disk w f =
     (if mimetype f = ''application/pdf'' then Inr True
      else Inl (new_Error w ''Only PDF files are allowed!''))"

text \<open>
  \<open>multer.diskStorage\<close>: the part is written to the \<open>destination\<close> directory \<open>./uploads\<close>
  under the \<open>filename\<close> \<open>`${Date.now()}-${file.originalname}`\<close>, and \<open>req.file.path\<close>
  is that path.
\<close>

definition diskStorage_path :: "world \<Rightarrow> upload \<Rightarrow> string" where
  "diskStorage_path w f =
     ''uploads/'' @ number_toString w (Date_now w) @ ''-'' @ originalname f"

text \<open>
  The \<open>catch\<close> block of \<open>/extract-text\<close>, for \<open>req.file.path = p\<close>, entered after \<open>n\<close>
  calls of \<open>unlinkSync\<close>.  Its own \<open>unlinkSync\<close> is in no \<open>try\<close>.
\<close>

definition extract_text_catch ::
  "world \<Rightarrow> nat \<Rightarrow> filesystem \<Rightarrow> string \<Rightarrow> js_error \<Rightarrow> reply \<times> filesystem" where
  "extract_text_catch w n fs p err =
     (let failed = res_json 500 (JObj [
                     (''success'', JBool False),
                     (''error'', JStr ''Failed to process PDF''),
                     (''details'', JStr (message err))])
      in if existsSync fs p
         then (case unlinkSync w n fs p of
                 Inl err' \<Rightarrow> (Rejected err', fs)
               | Inr fs' \<Rightarrow> (failed, fs'))
         else (failed, fs))"

text \<open>The handler of \<open>POST /extract-text\<close>, given \<open>req.file\<close> as its \<open>path\<close>.\<close>

definition extract_text_disk ::
  "world \<Rightarrow> filesystem \<Rightarrow> string option \<Rightarrow> reply \<times> filesystem" where
  "extract_text_disk w fs req_file =
     (case req_file of
        None \<Rightarrow> (no_file_reply, fs)
      | Some p \<Rightarrow>
          (case readFileSync w fs p of
             Inl err \<Rightarrow> extract_text_catch w 0 fs p err
           | Inr dataBuffer \<Rightarrow>
               (case pdf w dataBuffer of
                  Inl err \<Rightarrow> extract_text_catch w 0 fs p err
                | Inr data \<Rightarrow>
                    (case unlinkSync w 0 fs p of
                       Inl err \<Rightarrow> extract_text_catch w 1 fs p err
                     | Inr fs' \<Rightarrow>
                         (res_json 200 (JObj [
                            (''success'', JBool True),
                            (''text'', JStr (pdf_text data))]), fs')))))"

text \<open>The \<open>catch\<close> block of \<open>/translate\<close>.\<close>

definition translate_catch :: "js_error \<Rightarrow> reply" where
  "translate_catch err =
     res_json 500 (JObj [
       (''success'', JBool False),
       (''error'', JStr ''Translation failed''),
       (''details'', JStr (message err))])"

text \<open>The handler of \<open>POST /translate\<close>, given \<open>req.body\<close>.\<close>

definition translate_disk :: "world \<Rightarrow> jsval \<Rightarrow> reply \<times> http_call list" where
  "translate_disk w b =
     (if nullish b then (translate_catch (destructure_error w b), [])
      else
        (let txt = get_prop b ''text'';
             fromLang = default_to (get_prop b ''fromLang'') (JStr ''en'');
             toLang = default_to (get_prop b ''toLang'') (JStr ''es'')
         in if \<not> truthy txt \<or> typeof txt \<noteq> ''string'' then (invalid_text_reply, [])
            else
              (let textToTranslate =
                     (if length (str_value txt) > 500 then substring (str_value txt) 0 500
                      else str_value txt)
               in case langpair_template w fromLang toLang of
                    Inl err \<Rightarrow> (translate_catch err, [])
                  | Inr pair \<Rightarrow>
                      (let call = \<lparr>url = api_url,
                                   q = textToTranslate,
                                   langpair = pair,
                                   de = None,
                                   timeout_ms = 10000\<rparr>
                       in case axios_get w call of
                            Inl err \<Rightarrow> (translate_catch err, [call])
                          | Inr data \<Rightarrow>
                              if truthy (js_and data (get_prop data ''responseData''))
                              then (res_json 200 (JObj [
                                      (''success'', JBool True),
                                      (''translatedText'',
                                         get_prop (get_prop data ''responseData'')
                                           ''translatedText'')]),
                                    [call])
                              else (translate_catch
                                      (new_Error w ''Invalid response from translation service''),
                                    [call])))))"

text \<open>The error-handling middleware, registered last.\<close>

definition error_middleware :: "js_error \<Rightarrow> reply" where
  "error_middleware err =
     res_json 500 (JObj [
       (''success'', JBool False),
       (''error'', JStr ''Internal server error''),
       (''details'', JStr (message err))])"

text \<open>
  The middleware registered with \<open>app.use\<close> before the routes: \<open>express.json()\<close>, then
  \<open>bodyParser.json({ limit: '10mb' })\<close>, then
  \<open>bodyParser.urlencoded({ extended: true, limit: '10mb' })\<close>.
\<close>

definition body_parsers_disk :: "world \<Rightarrow> request \<Rightarrow> js_error + jsval" where
  "body_parsers_disk w req =
     (case json_parser w limit_default req None of
        Inl err \<Rightarrow> Inl err
      | Inr parsed \<Rightarrow>
          (case json_parser w limit_10mb req parsed of
             Inl err \<Rightarrow> Inl err
           | Inr parsed' \<Rightarrow>
               (case urlencoded_parser w limit_10mb req parsed' of
                  Inl err \<Rightarrow> Inl err
                | Inr parsed'' \<Rightarrow> Inr (req_body w parsed''))))"

text \<open>
  The routes as registered.  An error that a middleware passes to \<open>next\<close> reaches the
  error-handling middleware and leaves no file behind; an accepted part is on disk when
  the handler starts.
\<close>

definition route_extract_text_disk ::
  "world \<Rightarrow> filesystem \<Rightarrow> request \<Rightarrow> reply \<times> filesystem" where
  "route_extract_text_disk w fs req =
     (case body_parsers_disk w req of
        Inl err \<Rightarrow> (error_middleware err, fs)
      | Inr b \<Rightarrow>
          (case upload_single w (fileFilter_disk w) req of
             Inl err \<Rightarrow> (error_middleware err, fs)
           | Inr None \<Rightarrow> extract_text_disk w fs None
           | Inr (Some f) \<Rightarrow>
               extract_text_disk w (fs(diskStorage_path w f \<mapsto> content f))
                 (Some (diskStorage_path w f))))"

definition route_translate_disk :: "world \<Rightarrow> request \<Rightarrow> reply \<times> http_call list" where
  "route_translate_disk w req =
     (case body_parsers_disk w req of
        Inl err \<Rightarrow> (error_middleware err, [])
      | Inr b \<Rightarrow> translate_disk w b)"

section \<open>JSON values and sample environments\<close>

text \<open>
  A value that \<open>JSON.parse\<close> can produce holds no \<open>undefined\<close>; the provider's answers
  are such values.
\<close>

fun is_json :: "jsval \<Rightarrow> bool" where
  "is_json JUndefined = False"
| "is_json (JArr xs) = list_all is_json xs"
| "is_json (JObj fs) = list_all (\<lambda>kv. is_json (snd kv)) fs"
| "is_json v = True"

text \<open>
  Concrete environments and requests, on which the theorems below are instantiated: a
  provider that answers with a translation, a parser that returns 1200 characters on 3
  pages, a clock at 1700000000000 with a runtime that prints that number, a JSON parser
  that knows the bodies used below, Express 4's \<open>{}\<close> for an unparsed body, a file
  system without errors, and a PDF upload; then variants of them.
\<close>

definition provider_ok :: "http_call \<Rightarrow> js_error + jsval" where
  "provider_ok c =
     Inr (JObj [(''responseData'', JObj [(''translatedText'', JStr ''hola''), (''match'', JNum 1)]),
                (''responseStatus'', JNum 200)])"

definition sample_bodies :: "(string \<times> jsval) list" where
  \<open>sample_bodies =
     [(''{"text":"hello"}'', JObj [(''text'', JStr ''hello'')]),
      (''{"text":""}'', JObj [(''text'', JStr [])]),
      (''{"text":42}'', JObj [(''text'', JNum 42)]),
      (''{}'', JObj []),
      (''{"text":"hello","fromLang":{"toString":1}}'',
         JObj [(''text'', JStr ''hello''), (''fromLang'', JObj [(''toString'', JNum 1)])])]\<close>

definition sample_JSON_parse :: "string \<Rightarrow> js_error + jsval" where
  "sample_JSON_parse s =
     (case map_of sample_bodies s of
        Some v \<Rightarrow> Inr v
      | None \<Rightarrow> Inl \<lparr>message = ''Unexpected token in JSON'',
                      stack = ''SyntaxError: Unexpected token in JSON'',
                      http_status = None\<rparr>)"

definition sample_world :: world where
  "sample_world =
     \<lparr>pdf = (\<lambda>b. Inr \<lparr>pdf_text = replicate 1200 (CHR ''a''), numpages = 3\<rparr>),
      axios_get = provider_ok,
      NODE_ENV = Some ''production'',
      Date_now = 1700000000000,
      error_stack = (\<lambda>m. ''Error: '' @ m),
      type_error_stack = (\<lambda>m. ''TypeError: '' @ m),
      number_toString = (\<lambda>x. ''1700000000000''),
      JSON_parse = sample_JSON_parse,
      urlencoded_parse = (\<lambda>s. Inr (JObj [])),
      unparsed_body = JObj [],
      fs_read_error = (\<lambda>p. None),
      fs_unlink_error = (\<lambda>n p. None)\<rparr>"

definition sample_upload :: upload where
  "sample_upload =
     \<lparr>originalname = ''a.pdf'', mimetype = ''application/pdf'', content = [37, 80, 68, 70]\<rparr>"

definition sample_request :: request where
  "sample_request = \<lparr>payload = Multipart (Some sample_upload)\<rparr>"

definition short_world :: world where
  "short_world = sample_world\<lparr>pdf := (\<lambda>b. Inr \<lparr>pdf_text = ''short text'', numpages = 1\<rparr>)\<rparr>"

definition hello_request :: request where
  \<open>hello_request = \<lparr>payload = JsonPayload ''{"text":"hello"}''\<rparr>\<close>

definition failing_world :: world where
  "failing_world =
     sample_world\<lparr>pdf := (\<lambda>b. Inl \<lparr>message = ''Invalid PDF structure'',
                                      stack = ''Error: Invalid PDF structure'',
                                      http_status = None\<rparr>)\<rparr>"

definition text_request :: request where
  "text_request = \<lparr>payload = Multipart (Some (sample_upload\<lparr>mimetype := ''text/plain''\<rparr>))\<rparr>"

definition provider_no_text :: "http_call \<Rightarrow> js_error + jsval" where
  "provider_no_text c =
     Inr (JObj [(''responseData'', JObj [(''match'', JNum 0)]), (''responseStatus'', JStr ''403'')])"

definition no_text_world :: world where
  "no_text_world = sample_world\<lparr>axios_get := provider_no_text\<rparr>"

definition dev_world :: world where
  "dev_world = failing_world\<lparr>NODE_ENV := Some ''development''\<rparr>"


text \<open>Express 5 leaves \<open>req.body\<close> undefined when nothing was parsed.\<close>

definition express5_world :: world where
  "express5_world = sample_world\<lparr>unparsed_body := JUndefined\<rparr>"

text \<open>A file system on which \<open>fs.unlinkSync\<close> is refused.\<close>

definition eperm :: js_error where
  "eperm = \<lparr>message = ''EPERM: operation not permitted, unlink'',
            stack = ''Error: EPERM: operation not permitted, unlink'',
            http_status = None\<rparr>"

definition readonly_world :: world where
  "readonly_world = sample_world\<lparr>fs_unlink_error := (\<lambda>n p. Some eperm)\<rparr>"

definition json_request :: "string \<Rightarrow> request" where
  "json_request s = \<lparr>payload = JsonPayload s\<rparr>"

section \<open>Basic facts\<close>

lemma substring_0 [simp]: "substring s 0 n = take n s"
  by (simp add: substring_def)

lemma truthy_not_nullish: "truthy v \<Longrightarrow> \<not> nullish v"
  by (cases v) (simp_all add: nullish_def)

lemma stringify_json: "is_json v \<Longrightarrow> stringify v = v"
proof (induction v rule: stringify.induct)
  case (1 fs)
  have nf: "filter (\<lambda>kv. snd kv \<noteq> JUndefined) fs = fs"
    using 1(2) by (auto simp: list_all_iff intro!: filter_True)
  have "map (\<lambda>kv. (fst kv, stringify (snd kv))) fs = fs"
    using 1 nf by (auto simp: list_all_iff intro!: map_idI)
  then show ?case using nf by simp
next
  case (2 xs)
  have "x \<in> set xs \<Longrightarrow> x \<noteq> JUndefined" for x
    using 2(2) by (auto simp: list_all_iff)
  then show ?case using 2 by (auto simp: list_all_iff intro!: map_idI)
qed simp_all

lemma is_json_get_prop: "is_json v \<Longrightarrow> truthy (get_prop v k) \<Longrightarrow> is_json (get_prop v k)"
  by (cases v) (auto simp: list_all_iff split: option.splits dest!: map_of_SomeD)

lemma opt_chain_get_prop: "opt_chain v k = get_prop v k"
  by (cases v) (simp_all add: opt_chain_def nullish_def)

lemma guarded_reads:
  "truthy (opt_chain (opt_chain data k1) k2) \<Longrightarrow> \<not> nullish data \<and> \<not> nullish (get_prop data k1)"
  by (cases data; cases "get_prop data k1") (simp_all add: opt_chain_def nullish_def)

lemma guarded_reads_and:
  "truthy (js_and data (get_prop data k1)) \<Longrightarrow> \<not> nullish data \<and> \<not> nullish (get_prop data k1)"
  by (cases data; cases "get_prop data k1") (simp_all add: js_and_def nullish_def split: if_splits)

lemma file_part_sample [simp]: "file_part sample_request = Some sample_upload"
  by (simp add: file_part_def sample_request_def)

lemma upload_single_sample:
  "upload_single w (fileFilter_mem w) sample_request = Inr (Some sample_upload)"
  by (simp add: upload_single_def fileFilter_mem_def sample_upload_def fileSize_limit_def)

lemma upload_single_payload:
  assumes "upload_single w flt req = Inr (Some f)"
  shows "payload req = Multipart (Some f)"
proof (cases "payload req")
  case (Multipart part)
  with assms show ?thesis
    by (cases part)
       (auto simp: upload_single_def file_part_def split: sum.splits if_splits)
qed (use assms in \<open>simp_all add: upload_single_def file_part_def\<close>)

text \<open>The body parsers leave a request of another type alone.\<close>

lemma body_parsers_mem_multipart:
  "payload req = Multipart part \<Longrightarrow> body_parsers_mem w req = Inr (unparsed_body w)"
  by (simp add: body_parsers_mem_def json_parser_def urlencoded_parser_def req_body_def)

lemma body_parsers_disk_multipart:
  "payload req = Multipart part \<Longrightarrow> body_parsers_disk w req = Inr (unparsed_body w)"
  by (simp add: body_parsers_disk_def json_parser_def urlencoded_parser_def req_body_def)



lemma route_process_pdf_accepted:
  "upload_single w (fileFilter_mem w) req = Inr (Some f) \<Longrightarrow>
     route_process_pdf w req = process_pdf w (Some f)"
  by (simp add: route_process_pdf_def body_parsers_mem_multipart [OF upload_single_payload])

lemma langpair_template_strings [simp]:
  "langpair_template w (JStr a) (JStr b) = Inr (a @ ''|'' @ b)"
  by (simp add: langpair_template_def to_string_def)

section \<open>The translation adapter of the memory-backed server\<close>

lemma translateText_calls:
  "snd (translateText w t fromLang toLang) =
     (case langpair_template w fromLang toLang of
        Inl err \<Rightarrow> []
      | Inr pair \<Rightarrow>
          [\<lparr>url = api_url, q = take 500 t, langpair = pair,
            de = Some ''your-email@example.com'', timeout_ms = 5000\<rparr>])"
  by (simp add: translateText_def Let_def split: sum.splits)

lemma translateText_calls_le:
  "list_all (\<lambda>c. length (q c) \<le> 500) (snd (translateText w t fromLang toLang))"
  by (simp add: translateText_calls split: sum.splits)

lemma translateText_take:
  "translateText w (take 500 t) fromLang toLang = translateText w t fromLang toLang"
  by (simp add: translateText_def split: sum.splits)

text \<open>
  What \<open>translateText\<close> returns was read from an answer of the provider, is truthy, and
  is a JSON value when the provider's answer is one.
\<close>

lemma translateText_result:
  assumes "fst (translateText w t fromLang toLang) = Inr res"
  shows "truthy res
       \<and> ((\<forall>c data. axios_get w c = Inr data \<longrightarrow> is_json data) \<longrightarrow> is_json res)"
proof -
  from assms obtain c data where d: "axios_get w c = Inr data"
    and r: "res = get_prop (get_prop data ''responseData'') ''translatedText''"
    and t: "truthy (get_prop (get_prop data ''responseData'') ''translatedText'')"
    by (auto simp: translateText_def Let_def opt_chain_get_prop split: sum.splits if_splits)
  have "is_json res" if "is_json data"
  proof -
    have "truthy (get_prop data ''responseData'')"
      using t by (cases "get_prop data ''responseData''") simp_all
    then have "is_json (get_prop data ''responseData'')"
      using that by (rule is_json_get_prop [rotated])
    then show ?thesis using t r by (simp add: is_json_get_prop)
  qed
  then show ?thesis using d r t by blast
qed

lemma process_pdf_calls_le:
  "list_all (\<lambda>c. length (q c) \<le> 500) (snd (process_pdf w req_file))"
proof (cases req_file)
  case None
  then show ?thesis by (simp add: process_pdf_def)
next
  case (Some f)
  show ?thesis
  proof (cases "pdf w (content f)")
    case (Inl err)
    then show ?thesis using Some by (simp add: process_pdf_def)
  next
    case (Inr data)
    obtain r cs where
      tr: "translateText w (take 500 (pdf_text data)) (JStr ''auto'') (JStr ''en'') = (r, cs)"
      by (cases "translateText w (take 500 (pdf_text data)) (JStr ''auto'') (JStr ''en'')")
    then have "cs = snd (translateText w (take 500 (pdf_text data)) (JStr ''auto'') (JStr ''en''))"
      by simp
    then have cs: "list_all (\<lambda>c. length (q c) \<le> 500) cs"
      by (simp add: translateText_calls)
    show ?thesis using Some Inr tr cs
      by (cases r) (simp_all add: process_pdf_def Let_def)
  qed
qed

lemma route_process_pdf_calls_le:
  "list_all (\<lambda>c. length (q c) \<le> 500) (snd (route_process_pdf w req))"
  by (cases "body_parsers_mem w req"; cases "upload_single w (fileFilter_mem w) req")
     (simp_all add: route_process_pdf_def process_pdf_calls_le)

lemma translate_mem_calls_le:
  "list_all (\<lambda>c. length (q c) \<le> 500) (snd (translate_mem w b))"
proof -
  let ?txt = "get_prop b ''text''"
  let ?f = "default_to (get_prop b ''fromLang'') (JStr ''auto'')"
  let ?t = "default_to (get_prop b ''toLang'') (JStr ''en'')"
  obtain r cs where tr: "translateText w (str_value ?txt) ?f ?t = (r, cs)"
    by (cases "translateText w (str_value ?txt) ?f ?t")
  then have "cs = snd (translateText w (str_value ?txt) ?f ?t)" by simp
  then have cs: "list_all (\<lambda>c. length (q c) \<le> 500) cs"
    by (simp add: translateText_calls_le)
  show ?thesis using tr cs
    by (cases r) (simp_all add: translate_mem_def Let_def)
qed

lemma route_translate_mem_calls_le:
  "list_all (\<lambda>c. length (q c) \<le> 500) (snd (route_translate_mem w req))"
  by (cases "body_parsers_mem w req")
     (simp_all add: route_translate_mem_def translate_mem_calls_le)

text \<open>
  C10.  In the memory-backed server \<open>translateText\<close> sends the first 500 characters
  of its argument (and sends nothing when its template literal throws), so no call of
  the provider carries more than 500 characters, from \<open>/process-pdf\<close> or from
  \<open>/translate\<close>; cutting at 500 twice, as the \<open>/process-pdf\<close> path does, is cutting
  once.
\<close>

theorem translateText_truncates:
  "map q (snd (translateText w t fromLang toLang)) =
     (case langpair_template w fromLang toLang of Inl err \<Rightarrow> [] | Inr pair \<Rightarrow> [take 500 t])
   \<and> map q (snd (translateText w t (JStr a) (JStr b))) = [take 500 t]
   \<and> length (take 500 t) \<le> 500
   \<and> substring (substring t 0 500) 0 500 = substring t 0 500
   \<and> translateText w (substring t 0 500) fromLang toLang = translateText w t fromLang toLang
   \<and> list_all (\<lambda>c. length (q c) \<le> 500) (snd (route_process_pdf w req))
   \<and> list_all (\<lambda>c. length (q c) \<le> 500) (snd (route_translate_mem w req))"
  by (simp add: translateText_calls translateText_take route_process_pdf_calls_le
        route_translate_mem_calls_le split: sum.splits)

theorem translateText_truncates_witness:
  "map q (snd (translateText sample_world (replicate 600 (CHR ''a'')) (JStr ''auto'') (JStr ''en'')))
     = [replicate 500 (CHR ''a'')]
   \<and> snd (route_process_pdf sample_world sample_request) \<noteq> []"
proof -
  have "snd (process_pdf sample_world (Some sample_upload)) \<noteq> []"
    by (simp add: process_pdf_def sample_world_def
          Let_def translateText_def provider_ok_def opt_chain_def nullish_def sample_upload_def)
  then have "snd (route_process_pdf sample_world sample_request) \<noteq> []"
    by (simp add: route_process_pdf_accepted [OF upload_single_sample])
  then show ?thesis
    using translateText_truncates [of sample_world "replicate 600 (CHR ''a'')" "JStr ''auto''"
        "JStr ''en''" "''auto''" "''en''" sample_request]
    by simp
qed

section \<open>The combined endpoint\<close>

lemma route_process_pdf_cases:
  "(\<exists>err. route_process_pdf w req = (DefaultErrorPage err, []))
   \<or> (\<exists>rf. upload_single w (fileFilter_mem w) req = Inr rf
            \<and> route_process_pdf w req = process_pdf w rf)"
  by (cases "body_parsers_mem w req"; cases "upload_single w (fileFilter_mem w) req")
     (auto simp: route_process_pdf_def)

lemma field_no_file [simp]: "field no_file_reply ''success'' = JBool False"
  by (simp add: no_file_reply_def res_json_def)

lemma field_process_pdf_catch [simp]: "field (process_pdf_catch w err) ''success'' = JBool False"
  by (simp add: process_pdf_catch_def res_json_def)

lemma process_pdf_success:
  assumes p: "pdf w (content f) = Inr data"
      and ok: "field (fst (process_pdf w (Some f))) ''success'' = JBool True"
  shows "status_code (fst (process_pdf w (Some f))) = 200
       \<and> field (fst (process_pdf w (Some f))) ''extractedText'' =
           JStr (if 1000 < length (pdf_text data) then take 1000 (pdf_text data) @ ''...''
                 else pdf_text data)
       \<and> field (fst (process_pdf w (Some f))) ''metadata'' =
           JObj [(''pages'', JNum (real (numpages data))),
                 (''textLength'', JNum (real (length (pdf_text data))))]"
proof -
  let ?tr = "if length (pdf_text data) > 50
             then translateText w (substring (pdf_text data) 0 500) (JStr ''auto'') (JStr ''en'')
             else (Inr (JStr []), [])"
  obtain r cs where tr: "?tr = (r, cs)" by (cases ?tr)
  show ?thesis
  proof (cases r)
    case (Inl err)
    with p tr ok show ?thesis by (simp add: process_pdf_def Let_def)
  next
    case (Inr translation)
    with p tr show ?thesis
      by (simp add: process_pdf_def Let_def res_json_def)
  qed
qed

text \<open>
  C3.  In a successful \<open>/process-pdf\<close> response, \<open>extractedText\<close> is the first 1000
  characters of the extracted text followed by \<open>...\<close> when the text is longer than 1000
  characters, and the whole text otherwise; \<open>metadata.pages\<close> and \<open>metadata.textLength\<close>
  are the page count and the length of the text.  For a text of 1200 characters on 3
  pages: \<open>pages\<close> is 3, \<open>textLength\<close> is 1200, and \<open>extractedText\<close> has 1003 characters
  and ends in \<open>...\<close>.
\<close>

theorem process_pdf_preview:
  assumes ok: "field (fst (route_process_pdf w req)) ''success'' = JBool True"
  shows "\<exists>f data.
           upload_single w (fileFilter_mem w) req = Inr (Some f)
         \<and> pdf w (content f) = Inr data
         \<and> status_code (fst (route_process_pdf w req)) = 200
         \<and> field (fst (route_process_pdf w req)) ''extractedText'' =
             JStr (if 1000 < length (pdf_text data) then take 1000 (pdf_text data) @ ''...''
                   else pdf_text data)
         \<and> get_prop (field (fst (route_process_pdf w req)) ''metadata'') ''pages''
             = JNum (real (numpages data))
         \<and> get_prop (field (fst (route_process_pdf w req)) ''metadata'') ''textLength''
             = JNum (real (length (pdf_text data)))
         \<and> (length (pdf_text data) = 1200 \<and> numpages data = 3 \<longrightarrow>
              get_prop (field (fst (route_process_pdf w req)) ''metadata'') ''pages'' = JNum 3
            \<and> get_prop (field (fst (route_process_pdf w req)) ''metadata'') ''textLength'' = JNum 1200
            \<and> (\<exists>s. field (fst (route_process_pdf w req)) ''extractedText'' = JStr (s @ ''...'')
                   \<and> length (s @ ''...'') = 1003))"
proof -
  from route_process_pdf_cases [of w req] ok
  obtain req_file where up: "upload_single w (fileFilter_mem w) req = Inr req_file"
    and r: "route_process_pdf w req = process_pdf w req_file"
    by auto
  show ?thesis
  proof (cases req_file)
    case None
    with ok r show ?thesis by (simp add: process_pdf_def)
  next
    case (Some f)
    show ?thesis
    proof (cases "pdf w (content f)")
      case (Inl err)
      with ok r Some show ?thesis by (simp add: process_pdf_def)
    next
      case (Inr data)
      from process_pdf_success [OF Inr] ok r Some
      have s: "status_code (fst (process_pdf w (Some f))) = 200
       \<and> field (fst (process_pdf w (Some f))) ''extractedText'' =
           JStr (if 1000 < length (pdf_text data) then take 1000 (pdf_text data) @ ''...''
                 else pdf_text data)
       \<and> field (fst (process_pdf w (Some f))) ''metadata'' =
           JObj [(''pages'', JNum (real (numpages data))),
                 (''textLength'', JNum (real (length (pdf_text data))))]" by simp
      show ?thesis
        apply (rule exI [of _ f], rule exI [of _ data])
        using s r Some Inr up
        by auto
    qed
  qed
qed

theorem process_pdf_preview_witness:
  "field (fst (route_process_pdf sample_world sample_request)) ''success'' = JBool True
   \<and> field (fst (route_process_pdf sample_world sample_request)) ''extractedText''
       = JStr (replicate 1000 (CHR ''a'') @ ''...'')
   \<and> get_prop (field (fst (route_process_pdf sample_world sample_request)) ''metadata'') ''pages'' = JNum 3
   \<and> get_prop (field (fst (route_process_pdf sample_world sample_request)) ''metadata'') ''textLength'' = JNum 1200"
proof -
  have "field (fst (process_pdf sample_world (Some sample_upload))) ''success'' = JBool True"
    by (simp add: process_pdf_def sample_world_def
          Let_def translateText_def provider_ok_def opt_chain_def nullish_def sample_upload_def
          res_json_def)
  then have ok: "field (fst (route_process_pdf sample_world sample_request)) ''success'' = JBool True"
    by (simp add: route_process_pdf_accepted [OF upload_single_sample])
  have p: "pdf sample_world b = Inr \<lparr>pdf_text = replicate 1200 (CHR ''a''), numpages = 3\<rparr>" for b
    by (simp add: sample_world_def)
  from process_pdf_preview [OF ok] p show ?thesis using ok by auto
qed


text \<open>
  C2.  For a PDF that \<open>/process-pdf\<close> has parsed: when the extracted text has at most 50
  characters, \<open>translateText\<close> is not called and \<open>translatedText\<close> is the empty string;
  when it has more, \<open>translateText\<close> is called once, on the first 500 characters of the
  text, from \<open>auto\<close> to \<open>en\<close>, and when it returns, \<open>translatedText\<close> is what it
  returned.
\<close>

theorem process_pdf_translation:
  assumes up: "upload_single w (fileFilter_mem w) req = Inr (Some f)"
      and p: "pdf w (content f) = Inr data"
  shows "(length (pdf_text data) \<le> 50 \<longrightarrow>
            snd (route_process_pdf w req) = []
          \<and> field (fst (route_process_pdf w req)) ''translatedText'' = JStr [])
       \<and> (50 < length (pdf_text data) \<longrightarrow>
            snd (route_process_pdf w req) =
              [\<lparr>url = api_url, q = take 500 (pdf_text data), langpair = ''auto|en'',
                de = Some ''your-email@example.com'', timeout_ms = 5000\<rparr>]
          \<and> (\<forall>res. fst (translateText w (take 500 (pdf_text data)) (JStr ''auto'') (JStr ''en''))
                       = Inr res \<longrightarrow>
                 field (fst (route_process_pdf w req)) ''success'' = JBool True
               \<and> field (fst (route_process_pdf w req)) ''translatedText'' = stringify res
               \<and> (is_json res \<longrightarrow>
                    field (fst (route_process_pdf w req)) ''translatedText'' = res)))"
proof -
  have r: "route_process_pdf w req = process_pdf w (Some f)"
    using up by (rule route_process_pdf_accepted)
  let ?tt = "translateText w (take 500 (pdf_text data)) (JStr ''auto'') (JStr ''en'')"
  have short: "length (pdf_text data) \<le> 50 \<Longrightarrow>
      snd (process_pdf w (Some f)) = []
      \<and> field (fst (process_pdf w (Some f))) ''translatedText'' = JStr []"
    using p by (simp add: process_pdf_def Let_def res_json_def)
  have calls: "50 < length (pdf_text data) \<Longrightarrow> snd (process_pdf w (Some f)) = snd ?tt"
    using p by (simp add: process_pdf_def Let_def split: prod.splits sum.splits)
  have res: "field (fst (process_pdf w (Some f))) ''success'' = JBool True
           \<and> field (fst (process_pdf w (Some f))) ''translatedText'' = stringify res"
    if "50 < length (pdf_text data)" "fst ?tt = Inr res" for res
  proof -
    from that(2) obtain cs where tt: "?tt = (Inr res, cs)" by (cases ?tt) simp
    have "fst (process_pdf w (Some f)) =
       res_json 200 (JObj [
                       (''success'', JBool True),
                       (''metadata'', JObj [
                          (''pages'', JNum (real (numpages data))),
                          (''textLength'', JNum (real (length (pdf_text data))))]),
                       (''extractedText'',
                          JStr (substring (pdf_text data) 0 1000
                                @ (if length (pdf_text data) > 1000 then ''...'' else []))),
                       (''translatedText'', res),
                       (''downloadLink'', JNull)])"
      using p that(1) tt by (simp add: process_pdf_def Let_def)
    moreover have "truthy res"
      using that(2)
      by (auto simp: translateText_def Let_def opt_chain_get_prop split: sum.splits if_splits)
    then have "res \<noteq> JUndefined" by auto
    ultimately show ?thesis by (simp add: res_json_def)
  qed
  show ?thesis
    using short calls res r
    by (auto simp: translateText_calls stringify_json)
qed

theorem process_pdf_translation_witness:
  "snd (route_process_pdf short_world sample_request) = []
   \<and> field (fst (route_process_pdf short_world sample_request)) ''translatedText'' = JStr []
   \<and> snd (route_process_pdf sample_world sample_request) =
        [\<lparr>url = api_url, q = replicate 500 (CHR ''a''), langpair = ''auto|en'',
          de = Some ''your-email@example.com'', timeout_ms = 5000\<rparr>]
   \<and> field (fst (route_process_pdf sample_world sample_request)) ''translatedText'' = JStr ''hola''"
proof -
  have p1: "pdf short_world (content sample_upload) = Inr \<lparr>pdf_text = ''short text'', numpages = 1\<rparr>"
    by (simp add: short_world_def)
  have p2: "pdf sample_world (content sample_upload)
              = Inr \<lparr>pdf_text = replicate 1200 (CHR ''a''), numpages = 3\<rparr>"
    by (simp add: sample_world_def)
  have t: "fst (translateText sample_world (take 500 (replicate 1200 (CHR ''a''))) (JStr ''auto'') (JStr ''en''))
             = Inr (JStr ''hola'')"
    by (simp add: translateText_def Let_def sample_world_def provider_ok_def opt_chain_def nullish_def)
  show ?thesis
    using process_pdf_translation [OF upload_single_sample p1]
          process_pdf_translation [OF upload_single_sample p2] t
    by simp
qed

section \<open>The translation endpoint\<close>


lemma get_prop_nullish: "nullish b \<Longrightarrow> get_prop b k = JUndefined"
  by (auto simp: nullish_def)






text \<open>The body parsers of both servers on the sample requests.\<close>

lemma body_parsers_sample:
  assumes "map_of sample_bodies s = Some v" and "s \<noteq> []" and "length s \<le> 1000"
      and "JSON_parse w = sample_JSON_parse"
  shows "body_parsers_mem w (json_request s) = Inr v"
    and "body_parsers_disk w (json_request s) = Inr v"
  using assms
  by (simp_all add: body_parsers_mem_def body_parsers_disk_def json_parser_def
        urlencoded_parser_def req_body_def json_request_def limit_10mb_def limit_default_def
        sample_JSON_parse_def)

lemma sample_JSON_parse_worlds [simp]:
  "JSON_parse sample_world = sample_JSON_parse"
  "JSON_parse express5_world = sample_JSON_parse"
  "JSON_parse no_text_world = sample_JSON_parse"
  "JSON_parse dev_world = sample_JSON_parse"
  by (simp_all add: sample_world_def express5_world_def no_text_world_def dev_world_def
        failing_world_def)




lemma sample_body_hello:
  "body_parsers_mem w hello_request = Inr (JObj [(''text'', JStr ''hello'')])"
  "body_parsers_disk w hello_request = Inr (JObj [(''text'', JStr ''hello'')])"
  if "JSON_parse w = sample_JSON_parse"
  unfolding hello_request_def json_request_def [symmetric]
  by (rule body_parsers_sample; simp add: sample_bodies_def that)+




text \<open>The calls of the handlers on a body with a non-empty string \<open>text\<close>.\<close>

lemma translate_mem_calls:
  assumes "get_prop b ''text'' = JStr s" "s \<noteq> []"
  shows "snd (translate_mem w b) =
           snd (translateText w s (default_to (get_prop b ''fromLang'') (JStr ''auto''))
                                  (default_to (get_prop b ''toLang'') (JStr ''en'')))"
proof -
  let ?tt = "translateText w s (default_to (get_prop b ''fromLang'') (JStr ''auto''))
                                  (default_to (get_prop b ''toLang'') (JStr ''en''))"
  obtain r cs where tt: "?tt = (r, cs)" by (cases ?tt)
  have nn: "\<not> nullish b" using assms(1) get_prop_nullish [of b "''text''"] by auto
  show ?thesis using assms tt nn
    by (cases r) (simp_all add: translate_mem_def Let_def)
qed

lemma translate_disk_calls:
  assumes "get_prop b ''text'' = JStr s" "s \<noteq> []"
  shows "snd (translate_disk w b) =
     (case langpair_template w (default_to (get_prop b ''fromLang'') (JStr ''en''))
                               (default_to (get_prop b ''toLang'') (JStr ''es'')) of
        Inl err \<Rightarrow> []
      | Inr pair \<Rightarrow>
          [\<lparr>url = api_url, q = take 500 s, langpair = pair, de = None, timeout_ms = 10000\<rparr>])"
proof -
  have nn: "\<not> nullish b" using assms(1) get_prop_nullish [of b "''text''"] by auto
  show ?thesis using assms nn
    by (simp add: translate_disk_def Let_def split: sum.splits)
qed

text \<open>
  C6, as the code has it.  When \<open>/translate\<close> has a non-empty string \<open>text\<close>, the
  language pair is the template literal of the two languages, in which a language the
  request omits takes the server's default: \<open>auto\<close> for the source and \<open>en\<close> for the
  target in the memory-backed server, \<open>en\<close> for the source and \<open>es\<close> for the target
  in the disk-backed server.  The provider is called once with that pair; when the
  template literal throws (a language that cannot be converted to a string), it is not
  called.
\<close>

theorem translate_default_languages:
  "(\<forall>b s. body_parsers_mem w req = Inr b \<and> get_prop b ''text'' = JStr s \<and> s \<noteq> [] \<longrightarrow>
       map langpair (snd (route_translate_mem w req)) =
         (case langpair_template w
                 (if get_prop b ''fromLang'' = JUndefined then JStr ''auto''
                  else get_prop b ''fromLang'')
                 (if get_prop b ''toLang'' = JUndefined then JStr ''en''
                  else get_prop b ''toLang'') of
            Inl err \<Rightarrow> []
          | Inr pair \<Rightarrow> [pair])
     \<and> (get_prop b ''fromLang'' = JUndefined \<and> get_prop b ''toLang'' = JUndefined \<longrightarrow>
          map langpair (snd (route_translate_mem w req)) = [''auto|en''])
     \<and> (\<forall>l. get_prop b ''fromLang'' = JUndefined \<and> get_prop b ''toLang'' = JStr l \<longrightarrow>
          map langpair (snd (route_translate_mem w req)) = [''auto|'' @ l])
     \<and> (\<forall>l. get_prop b ''fromLang'' = JStr l \<and> get_prop b ''toLang'' = JUndefined \<longrightarrow>
          map langpair (snd (route_translate_mem w req)) = [l @ ''|en'']))
   \<and> (\<forall>b s. body_parsers_disk w req = Inr b \<and> get_prop b ''text'' = JStr s \<and> s \<noteq> [] \<longrightarrow>
       map langpair (snd (route_translate_disk w req)) =
         (case langpair_template w
                 (if get_prop b ''fromLang'' = JUndefined then JStr ''en''
                  else get_prop b ''fromLang'')
                 (if get_prop b ''toLang'' = JUndefined then JStr ''es''
                  else get_prop b ''toLang'') of
            Inl err \<Rightarrow> []
          | Inr pair \<Rightarrow> [pair])
     \<and> (get_prop b ''fromLang'' = JUndefined \<and> get_prop b ''toLang'' = JUndefined \<longrightarrow>
          map langpair (snd (route_translate_disk w req)) = [''en|es''])
     \<and> (\<forall>l. get_prop b ''fromLang'' = JUndefined \<and> get_prop b ''toLang'' = JStr l \<longrightarrow>
          map langpair (snd (route_translate_disk w req)) = [''en|'' @ l])
     \<and> (\<forall>l. get_prop b ''fromLang'' = JStr l \<and> get_prop b ''toLang'' = JUndefined \<longrightarrow>
          map langpair (snd (route_translate_disk w req)) = [l @ ''|es'']))"
proof (intro conjI allI impI)
  fix b s
  assume h: "body_parsers_mem w req = Inr b \<and> get_prop b ''text'' = JStr s \<and> s \<noteq> []"
  then have c: "snd (route_translate_mem w req) =
      snd (translateText w s (default_to (get_prop b ''fromLang'') (JStr ''auto''))
                             (default_to (get_prop b ''toLang'') (JStr ''en'')))"
    by (simp add: route_translate_mem_def translate_mem_calls)
  show "map langpair (snd (route_translate_mem w req)) =
         (case langpair_template w
                 (if get_prop b ''fromLang'' = JUndefined then JStr ''auto''
                  else get_prop b ''fromLang'')
                 (if get_prop b ''toLang'' = JUndefined then JStr ''en''
                  else get_prop b ''toLang'') of
            Inl err \<Rightarrow> []
          | Inr pair \<Rightarrow> [pair])"
    by (simp add: c translateText_calls default_to_def split: sum.splits)
  show "map langpair (snd (route_translate_mem w req)) = [''auto|en'']"
    if "get_prop b ''fromLang'' = JUndefined \<and> get_prop b ''toLang'' = JUndefined"
    using that by (simp add: c translateText_calls default_to_def)
  show "map langpair (snd (route_translate_mem w req)) = [''auto|'' @ l]"
    if "get_prop b ''fromLang'' = JUndefined \<and> get_prop b ''toLang'' = JStr l" for l
    using that by (simp add: c translateText_calls default_to_def)
  show "map langpair (snd (route_translate_mem w req)) = [l @ ''|en'']"
    if "get_prop b ''fromLang'' = JStr l \<and> get_prop b ''toLang'' = JUndefined" for l
    using that by (simp add: c translateText_calls default_to_def)
next
  fix b s
  assume h: "body_parsers_disk w req = Inr b \<and> get_prop b ''text'' = JStr s \<and> s \<noteq> []"
  then have c: "snd (route_translate_disk w req) =
     (case langpair_template w (default_to (get_prop b ''fromLang'') (JStr ''en''))
                               (default_to (get_prop b ''toLang'') (JStr ''es'')) of
        Inl err \<Rightarrow> []
      | Inr pair \<Rightarrow>
          [\<lparr>url = api_url, q = take 500 s, langpair = pair, de = None, timeout_ms = 10000\<rparr>])"
    by (simp add: route_translate_disk_def translate_disk_calls)
  show "map langpair (snd (route_translate_disk w req)) =
         (case langpair_template w
                 (if get_prop b ''fromLang'' = JUndefined then JStr ''en''
                  else get_prop b ''fromLang'')
                 (if get_prop b ''toLang'' = JUndefined then JStr ''es''
                  else get_prop b ''toLang'') of
            Inl err \<Rightarrow> []
          | Inr pair \<Rightarrow> [pair])"
    by (simp add: c default_to_def split: sum.splits)
  show "map langpair (snd (route_translate_disk w req)) = [''en|es'']"
    if "get_prop b ''fromLang'' = JUndefined \<and> get_prop b ''toLang'' = JUndefined"
    using that by (simp add: c default_to_def)
  show "map langpair (snd (route_translate_disk w req)) = [''en|'' @ l]"
    if "get_prop b ''fromLang'' = JUndefined \<and> get_prop b ''toLang'' = JStr l" for l
    using that by (simp add: c default_to_def)
  show "map langpair (snd (route_translate_disk w req)) = [l @ ''|es'']"
    if "get_prop b ''fromLang'' = JStr l \<and> get_prop b ''toLang'' = JUndefined" for l
    using that by (simp add: c default_to_def)
qed

lemma sample_body_unprintable:
  \<open>body_parsers_mem sample_world (json_request ''{"text":"hello","fromLang":{"toString":1}}'')
     = Inr (JObj [(''text'', JStr ''hello''), (''fromLang'', JObj [(''toString'', JNum 1)])])\<close>
  \<open>body_parsers_disk sample_world (json_request ''{"text":"hello","fromLang":{"toString":1}}'')
     = Inr (JObj [(''text'', JStr ''hello''), (''fromLang'', JObj [(''toString'', JNum 1)])])\<close>
  by (rule body_parsers_sample; simp add: sample_bodies_def)+

theorem translate_default_languages_witness:
  \<open>map langpair (snd (route_translate_mem sample_world hello_request)) = [''auto|en'']
   \<and> map langpair (snd (route_translate_disk sample_world hello_request)) = [''en|es'']
   \<and> snd (route_translate_mem sample_world
             (json_request ''{"text":"hello","fromLang":{"toString":1}}'')) = []
   \<and> snd (route_translate_disk sample_world
             (json_request ''{"text":"hello","fromLang":{"toString":1}}'')) = []\<close>
  using translate_default_languages [of sample_world hello_request]
        translate_default_languages [of sample_world
          \<open>json_request ''{"text":"hello","fromLang":{"toString":1}}''\<close>]
  by (simp add: sample_body_hello sample_body_unprintable langpair_template_def to_string_def)

text \<open>
  The disk-backed server, asked to translate \<open>hello\<close> with no languages given, calls
  the provider with the pair \<open>en|es\<close>, not \<open>auto|en\<close>.
\<close>

theorem translate_disk_defaults_counterexample:
  "map langpair (snd (route_translate_disk sample_world hello_request)) = [''en|es'']
   \<and> map langpair (snd (route_translate_disk sample_world hello_request)) \<noteq> [''auto|en'']"
  by (simp add: route_translate_disk_def sample_body_hello translate_disk_calls default_to_def)

section \<open>The extraction endpoint\<close>

lemma upload_single_sample_disk:
  "upload_single w (fileFilter_disk w) sample_request = Inr (Some sample_upload)"
  by (simp add: upload_single_def fileFilter_disk_def sample_upload_def fileSize_limit_def)

lemma extract_text_catch_success [simp]:
  "field (fst (extract_text_catch w n fs p err)) ''success'' \<noteq> JBool True"
  by (simp add: extract_text_catch_def Let_def res_json_def split: sum.splits)

lemma handleError_success [simp]:
  "field (handleError w err c) ''success'' = JBool False"
  by (simp add: handleError_def res_json_def)

lemma error_middleware_success [simp]:
  "field (error_middleware err) ''success'' = JBool False"
  by (simp add: error_middleware_def res_json_def)

lemma route_extract_text_mem_cases:
  "(\<exists>err. route_extract_text_mem w req = DefaultErrorPage err)
   \<or> (\<exists>rf. upload_single w (fileFilter_mem w) req = Inr rf
            \<and> route_extract_text_mem w req = extract_text_mem w rf)"
  by (cases "body_parsers_mem w req"; cases "upload_single w (fileFilter_mem w) req")
     (auto simp: route_extract_text_mem_def)

lemma route_extract_text_mem_accepted:
  "upload_single w (fileFilter_mem w) req = Inr (Some f) \<Longrightarrow>
     route_extract_text_mem w req = extract_text_mem w (Some f)"
  by (simp add: route_extract_text_mem_def body_parsers_mem_multipart [OF upload_single_payload])

lemma route_extract_text_disk_accepted:
  "upload_single w (fileFilter_disk w) req = Inr (Some f) \<Longrightarrow>
     route_extract_text_disk w fs req =
       extract_text_disk w (fs(diskStorage_path w f \<mapsto> content f)) (Some (diskStorage_path w f))"
  by (simp add: route_extract_text_disk_def body_parsers_disk_multipart [OF upload_single_payload])

lemma route_extract_text_disk_cases:
  "(\<exists>err. route_extract_text_disk w fs req = (error_middleware err, fs))
   \<or> route_extract_text_disk w fs req = (no_file_reply, fs)
   \<or> (\<exists>f. upload_single w (fileFilter_disk w) req = Inr (Some f)
          \<and> route_extract_text_disk w fs req =
              extract_text_disk w (fs(diskStorage_path w f \<mapsto> content f))
                (Some (diskStorage_path w f)))"
proof (cases "body_parsers_disk w req")
  case (Inl err)
  then have "route_extract_text_disk w fs req = (error_middleware err, fs)"
    by (simp add: route_extract_text_disk_def)
  then show ?thesis by blast
next
  case (Inr b)
  show ?thesis
  proof (cases "upload_single w (fileFilter_disk w) req")
    case (Inl err)
    with Inr have "route_extract_text_disk w fs req = (error_middleware err, fs)"
      by (simp add: route_extract_text_disk_def)
    then show ?thesis by blast
  next
    case up: (Inr rf)
    show ?thesis
    proof (cases rf)
      case None
      with Inr up have "route_extract_text_disk w fs req = (no_file_reply, fs)"
        by (simp add: route_extract_text_disk_def extract_text_disk_def)
      then show ?thesis by blast
    next
      case (Some f)
      with Inr up show ?thesis by (simp add: route_extract_text_disk_def)
    qed
  qed
qed

text \<open>The disk-backed handler on a file that is there.\<close>

lemma extract_text_disk_success:
  assumes "fs p = Some b"
      and "field (fst (extract_text_disk w fs (Some p))) ''success'' = JBool True"
  shows "\<exists>data. pdf w b = Inr data
           \<and> fst (extract_text_disk w fs (Some p)) =
               Json 200 (JObj [(''success'', JBool True), (''text'', JStr (pdf_text data))])"
proof (cases "fs_read_error w p")
  case (Some err)
  with assms show ?thesis by (simp add: extract_text_disk_def readFileSync_def)
next
  case None
  show ?thesis
  proof (cases "pdf w b")
    case (Inl err)
    with assms None show ?thesis by (simp add: extract_text_disk_def readFileSync_def)
  next
    case (Inr data)
    show ?thesis
    proof (cases "fs_unlink_error w 0 p")
      case (Some err)
      with assms None Inr show ?thesis
        by (simp add: extract_text_disk_def readFileSync_def unlinkSync_def)
    next
      case un: None
      with assms None Inr show ?thesis
        by (simp add: extract_text_disk_def readFileSync_def unlinkSync_def res_json_def)
    qed
  qed
qed

lemma extract_text_disk_stored:
  assumes "fs_read_error w p = None" and "fs_unlink_error w 0 p = None"
  shows "fst (extract_text_disk w (fs(p \<mapsto> b)) (Some p)) =
     (case pdf w b of
        Inl err \<Rightarrow> res_json 500 (JObj [
                     (''success'', JBool False),
                     (''error'', JStr ''Failed to process PDF''),
                     (''details'', JStr (message err))])
      | Inr data \<Rightarrow> res_json 200 (JObj [(''success'', JBool True), (''text'', JStr (pdf_text data))]))"
  using assms
  by (simp add: extract_text_disk_def readFileSync_def unlinkSync_def extract_text_catch_def
        existsSync_def Let_def split: sum.splits)

lemma sample_fs_errors [simp]:
  "fs_read_error sample_world p = None" "fs_unlink_error sample_world n p = None"
  "fs_read_error failing_world p = None" "fs_unlink_error failing_world n p = None"
  by (simp_all add: sample_world_def failing_world_def)

text \<open>
  C7, as the code has it.  A successful \<open>/extract-text\<close> answer has status 200 and
  \<open>success: true\<close> with the whole extracted text; the memory-backed server adds \<open>pages\<close>
  and \<open>textLength\<close>, the disk-backed server sends \<open>success\<close> and \<open>text\<close> only.
\<close>

theorem extract_text_success_body:
  "(field (route_extract_text_mem w req) ''success'' = JBool True \<longrightarrow>
      (\<exists>f data. upload_single w (fileFilter_mem w) req = Inr (Some f)
         \<and> pdf w (content f) = Inr data
         \<and> route_extract_text_mem w req =
             Json 200 (JObj [(''success'', JBool True),
                             (''text'', JStr (pdf_text data)),
                             (''pages'', JNum (real (numpages data))),
                             (''textLength'', JNum (real (length (pdf_text data))))])))
 \<and> (field (fst (route_extract_text_disk w fs req)) ''success'' = JBool True \<longrightarrow>
      (\<exists>f data. upload_single w (fileFilter_disk w) req = Inr (Some f)
         \<and> pdf w (content f) = Inr data
         \<and> fst (route_extract_text_disk w fs req) =
             Json 200 (JObj [(''success'', JBool True), (''text'', JStr (pdf_text data))])))"
proof (intro conjI impI)
  assume ok: "field (route_extract_text_mem w req) ''success'' = JBool True"
  from route_extract_text_mem_cases [of w req] ok
  obtain req_file where up: "upload_single w (fileFilter_mem w) req = Inr req_file"
    and r: "route_extract_text_mem w req = extract_text_mem w req_file"
    by auto
  show "\<exists>f data. upload_single w (fileFilter_mem w) req = Inr (Some f)
         \<and> pdf w (content f) = Inr data
         \<and> route_extract_text_mem w req =
             Json 200 (JObj [(''success'', JBool True),
                             (''text'', JStr (pdf_text data)),
                             (''pages'', JNum (real (numpages data))),
                             (''textLength'', JNum (real (length (pdf_text data))))])"
  proof (cases req_file)
    case None
    with ok r show ?thesis by (simp add: extract_text_mem_def)
  next
    case (Some f)
    show ?thesis
    proof (cases "pdf w (content f)")
      case (Inl err)
      with ok r Some show ?thesis by (simp add: extract_text_mem_def)
    next
      case (Inr data)
      with up r Some show ?thesis
        by (simp add: extract_text_mem_def res_json_def)
    qed
  qed
next
  assume ok: "field (fst (route_extract_text_disk w fs req)) ''success'' = JBool True"
  from route_extract_text_disk_cases [of w fs req] ok
  obtain f where up: "upload_single w (fileFilter_disk w) req = Inr (Some f)"
    and r: "route_extract_text_disk w fs req =
              extract_text_disk w (fs(diskStorage_path w f \<mapsto> content f))
                (Some (diskStorage_path w f))"
    by auto
  from extract_text_disk_success [of "fs(diskStorage_path w f \<mapsto> content f)"
      "diskStorage_path w f" "content f" w] ok r
  obtain data where "pdf w (content f) = Inr data"
    and "fst (route_extract_text_disk w fs req) =
           Json 200 (JObj [(''success'', JBool True), (''text'', JStr (pdf_text data))])"
    by auto
  with up show "\<exists>f data. upload_single w (fileFilter_disk w) req = Inr (Some f)
         \<and> pdf w (content f) = Inr data
         \<and> fst (route_extract_text_disk w fs req) =
             Json 200 (JObj [(''success'', JBool True), (''text'', JStr (pdf_text data))])"
    by blast
qed

theorem extract_text_success_body_witness:
  "route_extract_text_mem sample_world sample_request =
     Json 200 (JObj [(''success'', JBool True),
                     (''text'', JStr (replicate 1200 (CHR ''a''))),
                     (''pages'', JNum 3),
                     (''textLength'', JNum 1200)])
   \<and> fst (route_extract_text_disk sample_world Map.empty sample_request) =
     Json 200 (JObj [(''success'', JBool True), (''text'', JStr (replicate 1200 (CHR ''a'')))])"
proof -
  have p: "pdf sample_world b = Inr \<lparr>pdf_text = replicate 1200 (CHR ''a''), numpages = 3\<rparr>" for b
    by (simp add: sample_world_def)
  have ok1: "field (route_extract_text_mem sample_world sample_request) ''success'' = JBool True"
    by (simp add: route_extract_text_mem_accepted [OF upload_single_sample] extract_text_mem_def p
          res_json_def)
  have ok2: "field (fst (route_extract_text_disk sample_world Map.empty sample_request)) ''success''
               = JBool True"
    by (simp add: route_extract_text_disk_accepted [OF upload_single_sample_disk]
          extract_text_disk_stored p res_json_def)
  from extract_text_success_body [of sample_world sample_request Map.empty] ok1 ok2 p
  show ?thesis by auto
qed

text \<open>
  A successful answer of the disk-backed \<open>/extract-text\<close> has neither \<open>pages\<close> nor
  \<open>textLength\<close>.
\<close>

theorem extract_text_disk_fields_counterexample:
  "status_code (fst (route_extract_text_disk sample_world Map.empty sample_request)) = 200
   \<and> field (fst (route_extract_text_disk sample_world Map.empty sample_request)) ''success'' = JBool True
   \<and> \<not> has_field (fst (route_extract_text_disk sample_world Map.empty sample_request)) ''pages''
   \<and> \<not> has_field (fst (route_extract_text_disk sample_world Map.empty sample_request)) ''textLength''"
proof -
  have p: "pdf sample_world b = Inr \<lparr>pdf_text = replicate 1200 (CHR ''a''), numpages = 3\<rparr>" for b
    by (simp add: sample_world_def)
  show ?thesis
    by (simp add: route_extract_text_disk_accepted [OF upload_single_sample_disk]
          extract_text_disk_stored p res_json_def)
qed

section \<open>The temporary file of the disk-backed server\<close>

lemma extract_text_catch_fs:
  "snd (extract_text_catch w n fs p err) =
     (if fs p \<noteq> None \<and> fs_unlink_error w n p \<noteq> None then fs else fs(p := None))
   \<and> fst (extract_text_catch w n fs p err) =
     (case (fs p, fs_unlink_error w n p) of
        (Some b, Some err') \<Rightarrow> Rejected err'
      | _ \<Rightarrow> res_json 500 (JObj [
                 (''success'', JBool False),
                 (''error'', JStr ''Failed to process PDF''),
                 (''details'', JStr (message err))]))"
  by (cases "fs p"; cases "fs_unlink_error w n p")
     (auto simp: extract_text_catch_def existsSync_def unlinkSync_def Let_def)

text \<open>When the first \<open>unlinkSync\<close> of the request is not refused.\<close>

lemma extract_text_disk_fs:
  assumes "fs_unlink_error w 0 p = None"
  shows "snd (extract_text_disk w fs (Some p)) = fs(p := None)
       \<and> json_body (fst (extract_text_disk w fs (Some p))) \<noteq> None"
proof (cases "fs p")
  case None
  then show ?thesis
    by (simp add: extract_text_disk_def readFileSync_def extract_text_catch_fs res_json_def)
next
  case (Some b)
  show ?thesis
  proof (cases "fs_read_error w p")
    case (Some err)
    with \<open>fs p = Some b\<close> assms show ?thesis
      by (simp add: extract_text_disk_def readFileSync_def extract_text_catch_fs res_json_def)
  next
    case None
    with \<open>fs p = Some b\<close> assms show ?thesis
      by (cases "pdf w b")
         (simp_all add: extract_text_disk_def readFileSync_def unlinkSync_def
            extract_text_catch_fs res_json_def)
  qed
qed

text \<open>In general: the file is removed, or \<open>unlinkSync\<close> was refused and it is all there.\<close>

lemma extract_text_disk_fs_general:
  "(snd (extract_text_disk w fs (Some p)) = fs(p := None)
      \<and> json_body (fst (extract_text_disk w fs (Some p))) \<noteq> None)
   \<or> (snd (extract_text_disk w fs (Some p)) = fs \<and> fs p \<noteq> None
      \<and> (\<exists>n err. fs_unlink_error w n p = Some err
            \<and> fst (extract_text_disk w fs (Some p)) = Rejected err))"
proof (cases "fs_unlink_error w 0 p")
  case None
  then show ?thesis using extract_text_disk_fs [of w p fs] by simp
next
  case u0: (Some e0)
  show ?thesis
  proof (cases "fs p")
    case None
    then show ?thesis
      by (simp add: extract_text_disk_def readFileSync_def extract_text_catch_fs res_json_def)
  next
    case (Some b)
    show ?thesis
    proof (cases "fs_read_error w p")
      case re: (Some err)
      with Some u0 have "snd (extract_text_disk w fs (Some p)) = fs
          \<and> fst (extract_text_disk w fs (Some p)) = Rejected e0"
        by (simp add: extract_text_disk_def readFileSync_def extract_text_catch_fs)
      with Some u0 show ?thesis by blast
    next
      case None
      show ?thesis
      proof (cases "pdf w b")
        case (Inl err)
        with Some None u0 have "snd (extract_text_disk w fs (Some p)) = fs
          \<and> fst (extract_text_disk w fs (Some p)) = Rejected e0"
          by (simp add: extract_text_disk_def readFileSync_def extract_text_catch_fs)
        with Some u0 show ?thesis by blast
      next
        case (Inr data)
        show ?thesis
        proof (cases "fs_unlink_error w 1 p")
          case u1: None
          with Some None Inr u0 show ?thesis
            by (simp add: extract_text_disk_def readFileSync_def unlinkSync_def
                  extract_text_catch_fs res_json_def)
        next
          case u1: (Some e1)
          with Some None Inr u0 have "snd (extract_text_disk w fs (Some p)) = fs
            \<and> fst (extract_text_disk w fs (Some p)) = Rejected e1"
            by (simp add: extract_text_disk_def readFileSync_def unlinkSync_def
                  extract_text_catch_fs)
          with Some u1 show ?thesis by blast
        qed
      qed
    qed
  qed
qed

text \<open>
  C9, as the code has it.  In the disk-backed server, whatever the upload directory
  holds, when the \<open>/extract-text\<close> handler has dealt with a request with an uploaded
  file and \<open>fs.unlinkSync\<close> was not refused, that file is not on disk: on the success
  path, when the file cannot be read, and when the parser fails; every other file is as
  it was, and the handler has sent its answer.  The file can only stay when
  \<open>fs.unlinkSync\<close> itself throws on it.
\<close>

theorem extract_text_disk_removes_file:
  "(fs_unlink_error w 0 p = None \<longrightarrow>
        snd (extract_text_disk w fs (Some p)) p = None
      \<and> snd (extract_text_disk w fs (Some p)) = fs(p := None)
      \<and> json_body (fst (extract_text_disk w fs (Some p))) \<noteq> None)
   \<and> (snd (extract_text_disk w fs (Some p)) p \<noteq> None \<longrightarrow>
        snd (extract_text_disk w fs (Some p)) = fs
      \<and> (\<exists>n err. fs_unlink_error w n p = Some err
            \<and> fst (extract_text_disk w fs (Some p)) = Rejected err))
   \<and> (upload_single w (fileFilter_disk w) req = Inr (Some f)
        \<and> fs_unlink_error w 0 (diskStorage_path w f) = None \<longrightarrow>
        snd (route_extract_text_disk w fs req) (diskStorage_path w f) = None
      \<and> snd (route_extract_text_disk w fs req) = fs(diskStorage_path w f := None)
      \<and> json_body (fst (route_extract_text_disk w fs req)) \<noteq> None)"
proof (intro conjI impI)
  assume u: "fs_unlink_error w 0 p = None"
  from extract_text_disk_fs [OF u, of fs]
  show "snd (extract_text_disk w fs (Some p)) p = None"
    and "snd (extract_text_disk w fs (Some p)) = fs(p := None)"
    and "json_body (fst (extract_text_disk w fs (Some p))) \<noteq> None"
    by simp_all
next
  assume s: "snd (extract_text_disk w fs (Some p)) p \<noteq> None"
  from extract_text_disk_fs_general [of w fs p] s
  show "snd (extract_text_disk w fs (Some p)) = fs"
    and "\<exists>n err. fs_unlink_error w n p = Some err
            \<and> fst (extract_text_disk w fs (Some p)) = Rejected err"
    by auto
next
  assume a: "upload_single w (fileFilter_disk w) req = Inr (Some f)
        \<and> fs_unlink_error w 0 (diskStorage_path w f) = None"
  then have r: "route_extract_text_disk w fs req =
       extract_text_disk w (fs(diskStorage_path w f \<mapsto> content f)) (Some (diskStorage_path w f))"
    by (simp add: route_extract_text_disk_accepted)
  from a extract_text_disk_fs [of w "diskStorage_path w f" "fs(diskStorage_path w f \<mapsto> content f)"]
  show "snd (route_extract_text_disk w fs req) (diskStorage_path w f) = None"
    and "snd (route_extract_text_disk w fs req) = fs(diskStorage_path w f := None)"
    and "json_body (fst (route_extract_text_disk w fs req)) \<noteq> None"
    by (simp_all add: r)
qed

theorem extract_text_disk_removes_file_witness:
  "snd (route_extract_text_disk sample_world Map.empty sample_request)
     (diskStorage_path sample_world sample_upload) = None
   \<and> status_code (fst (route_extract_text_disk sample_world Map.empty sample_request)) = 200
   \<and> snd (route_extract_text_disk failing_world Map.empty sample_request)
     (diskStorage_path failing_world sample_upload) = None
   \<and> status_code (fst (route_extract_text_disk failing_world Map.empty sample_request)) = 500
   \<and> diskStorage_path sample_world sample_upload = ''uploads/1700000000000-a.pdf''
   \<and> snd (extract_text_disk readonly_world [''uploads/x.pdf'' \<mapsto> [37]] (Some ''uploads/x.pdf''))
       = [''uploads/x.pdf'' \<mapsto> [37]]"
proof -
  have p1: "pdf sample_world b = Inr \<lparr>pdf_text = replicate 1200 (CHR ''a''), numpages = 3\<rparr>" for b
    by (simp add: sample_world_def)
  have p2: "pdf failing_world b = Inl \<lparr>message = ''Invalid PDF structure'',
                                      stack = ''Error: Invalid PDF structure'',
                                      http_status = None\<rparr>" for b
    by (simp add: failing_world_def)
  have s1: "status_code (fst (route_extract_text_disk sample_world Map.empty sample_request)) = 200"
    by (simp add: route_extract_text_disk_accepted [OF upload_single_sample_disk]
          extract_text_disk_stored p1 res_json_def)
  have s2: "status_code (fst (route_extract_text_disk failing_world Map.empty sample_request)) = 500"
    by (simp add: route_extract_text_disk_accepted [OF upload_single_sample_disk]
          extract_text_disk_stored p2 res_json_def)
  have d: "diskStorage_path sample_world sample_upload = ''uploads/1700000000000-a.pdf''"
    by (simp add: diskStorage_path_def sample_world_def sample_upload_def)
  have stays: "snd (extract_text_disk readonly_world [''uploads/x.pdf'' \<mapsto> [37]]
                 (Some ''uploads/x.pdf'')) ''uploads/x.pdf'' \<noteq> None"
    by (simp add: extract_text_disk_def readFileSync_def unlinkSync_def extract_text_catch_def
          existsSync_def Let_def readonly_world_def sample_world_def)
  show ?thesis
    using extract_text_disk_removes_file [of sample_world _ Map.empty sample_request sample_upload]
          extract_text_disk_removes_file [of failing_world _ Map.empty sample_request sample_upload]
          extract_text_disk_removes_file [of readonly_world "''uploads/x.pdf''"
            "[''uploads/x.pdf'' \<mapsto> [37]]"]
          upload_single_sample_disk s1 s2 d stays
    by simp
qed

text \<open>
  On a file system that refuses \<open>fs.unlinkSync\<close>, the uploaded file is still on disk
  when the \<open>/extract-text\<close> handler is done, and the handler has rejected without an
  answer.
\<close>

theorem extract_text_disk_file_stays_counterexample:
  "snd (route_extract_text_disk readonly_world Map.empty sample_request)
     (diskStorage_path readonly_world sample_upload) = Some (content sample_upload)
   \<and> fst (route_extract_text_disk readonly_world Map.empty sample_request) = Rejected eperm"
  by (simp add: route_extract_text_disk_accepted [OF upload_single_sample_disk]
        extract_text_disk_def readFileSync_def unlinkSync_def extract_text_catch_def
        existsSync_def Let_def readonly_world_def sample_world_def)

section \<open>Failures outside the envelope\<close>

text \<open>
  C4 asks that every failure, an upload rejected by the MIME-type filter included, is
  answered with a JSON body holding \<open>success: false\<close> and an \<open>error\<close> message.  The
  memory-backed server registers no error-handling middleware: a \<open>text/plain\<close> upload to
  \<open>/process-pdf\<close> or \<open>/extract-text\<close> ends in Express's built-in error page, which has
  no JSON body.  The disk-backed server answers the same upload with the envelope of its
  error-handling middleware.
\<close>

theorem upload_rejection_default_page:
  "fst (route_process_pdf sample_world text_request) =
     DefaultErrorPage (new_Error sample_world ''Only PDF files are allowed (max 10MB)'')
   \<and> route_extract_text_mem sample_world text_request =
     DefaultErrorPage (new_Error sample_world ''Only PDF files are allowed (max 10MB)'')
   \<and> json_body (fst (route_process_pdf sample_world text_request)) = None
   \<and> field (fst (route_process_pdf sample_world text_request)) ''success'' \<noteq> JBool False
   \<and> fst (route_extract_text_disk sample_world Map.empty text_request) =
     Json 500 (JObj [(''success'', JBool False), (''error'', JStr ''Internal server error''),
                     (''details'', JStr ''Only PDF files are allowed!'')])"
proof -
  have m: "body_parsers_mem sample_world text_request = Inr (unparsed_body sample_world)"
    by (rule body_parsers_mem_multipart) (simp add: text_request_def)
  have d: "body_parsers_disk sample_world text_request = Inr (unparsed_body sample_world)"
    by (rule body_parsers_disk_multipart) (simp add: text_request_def)
  have um: "upload_single sample_world (fileFilter_mem sample_world) text_request =
              Inl (new_Error sample_world ''Only PDF files are allowed (max 10MB)'')"
    by (simp add: upload_single_def file_part_def text_request_def sample_upload_def
          fileFilter_mem_def)
  have ud: "upload_single sample_world (fileFilter_disk sample_world) text_request =
              Inl (new_Error sample_world ''Only PDF files are allowed!'')"
    by (simp add: upload_single_def file_part_def text_request_def sample_upload_def
          fileFilter_disk_def)
  show ?thesis
    by (simp add: route_process_pdf_def route_extract_text_mem_def route_extract_text_disk_def
          m d um ud error_middleware_def res_json_def new_Error_def)
qed

lemma translateText_signals_missing_field:
  assumes "langpair_template w a b = Inr pair"
      and "axios_get w \<lparr>url = api_url, q = take 500 t, langpair = pair,
             de = Some ''your-email@example.com'', timeout_ms = 5000\<rparr> = Inr data"
      and "\<not> truthy (get_prop (get_prop data ''responseData'') ''translatedText'')"
  shows "fst (translateText w t a b) =
           (case to_string w (if truthy (get_prop data ''responseStatus'')
                              then get_prop data ''responseStatus''
                              else JStr ''Translation service error'') of
              Inl err \<Rightarrow> Inl err
            | Inr m \<Rightarrow> Inl (new_Error w m))"
  using assms
  by (simp add: translateText_def Let_def opt_chain_get_prop js_or_def split: sum.splits)

text \<open>
  C8 asks that a provider answer without the translated text ends in an error.  The
  disk-backed \<open>/translate\<close> tests \<open>response.data.responseData\<close> only: for an answer
  whose \<open>responseData\<close> has no \<open>translatedText\<close> it sends status 200 with
  \<open>success: true\<close> and no \<open>translatedText\<close>.  On the same answer \<open>translateText\<close> of
  the memory-backed server throws an error carrying the provider's \<open>responseStatus\<close>,
  and its \<open>/translate\<close> answers 500.
\<close>

theorem translate_disk_missing_text:
  "fst (route_translate_disk no_text_world hello_request) = Json 200 (JObj [(''success'', JBool True)])
   \<and> \<not> has_field (fst (route_translate_disk no_text_world hello_request)) ''translatedText''
   \<and> fst (route_translate_mem no_text_world hello_request) =
       Json 500 (JObj [(''success'', JBool False), (''error'', JStr ''Translation failed'')])
   \<and> fst (translateText no_text_world ''hello'' (JStr ''auto'') (JStr ''en'')) =
       Inl (new_Error no_text_world ''403'')"
proof -
  have t: "translateText no_text_world ''hello'' (JStr ''auto'') (JStr ''en'') =
       (Inl (new_Error no_text_world ''403''),
        [\<lparr>url = api_url, q = ''hello'', langpair = ''auto|en'',
          de = Some ''your-email@example.com'', timeout_ms = 5000\<rparr>])"
    by (simp add: translateText_def Let_def opt_chain_get_prop js_or_def no_text_world_def
          provider_no_text_def sample_world_def to_string_def)
  have e: "NODE_ENV no_text_world = Some ''production''"
    by (simp add: no_text_world_def sample_world_def)
  have a: "axios_get no_text_world = provider_no_text"
    by (simp add: no_text_world_def)
  have d: "fst (route_translate_disk no_text_world hello_request)
             = Json 200 (JObj [(''success'', JBool True)])"
    by (simp add: route_translate_disk_def sample_body_hello translate_disk_def Let_def
        default_to_def nullish_def a provider_no_text_def js_and_def res_json_def)
  have m: "fst (route_translate_mem no_text_world hello_request) =
       Json 500 (JObj [(''success'', JBool False), (''error'', JStr ''Translation failed'')])"
    by (simp add: route_translate_mem_def sample_body_hello translate_mem_def Let_def
        default_to_def nullish_def t handleError_def e res_json_def)
  show ?thesis using t d m by simp
qed

section \<open>Error details and the configuration\<close>















text \<open>
  The disk-backed server never reads \<open>NODE_ENV\<close>: its three 500 answers hold the
  error's message as \<open>details\<close>.
\<close>

lemma disk_details_always:
  "field (translate_catch err) ''details'' = JStr (message err)
   \<and> field (error_middleware err) ''details'' = JStr (message err)
   \<and> (fs p = None \<longrightarrow>
        field (fst (extract_text_catch w n fs p err)) ''details'' = JStr (message err))"
  by (simp add: translate_catch_def error_middleware_def extract_text_catch_def existsSync_def
        Let_def res_json_def)

end
